theory Spec2Isabelle
  imports Complex_Main
begin

section \<open>Land-cover change detection (ChangeDetection.py, LandscapeChange.py)\<close>

text \<open>
  Python values are modelled as follows: raster values, class codes and pixel counts are
  Python integers (\<^typ>\<open>int\<close>), lists are lists, a raised exception is the left
  injection of a sum type.  \<open>IndexError\<close> is a subclass of Python's \<open>LookupError\<close>.
\<close>

datatype py_error = IndexError | ValueError | ZeroDivisionError

definition is_LookupError :: "py_error \<Rightarrow> bool" where
  "is_LookupError e = (e = IndexError)"

subsection \<open>change_rast: the combined code and the list of all combinations\<close>

text \<open>Line 24: the raster calculator expression \<^verbatim>\<open>Int((t1*100) + t2)\<close>.\<close>

definition rc :: "int \<Rightarrow> int \<Rightarrow> int" where
  "rc t1 t2 = (t1 * 100) + t2"

text \<open>
  Modelled from the spec: the source has no decoding function (it recovers the pair of
  classes by scanning the list of combinations, see \<open>calc_fields\<close> below); section 4.1
  of the specification gives \<open>decode(code) = (code div BASE, code mod BASE)\<close> with
  \<open>BASE = 100\<close>.  Python's \<open>//\<close> and \<open>%\<close> round towards minus infinity, as
  \<open>div\<close> and \<open>mod\<close> on \<^typ>\<open>int\<close> do.
\<close>

definition BASE :: int where
  "BASE = 100"

definition decode :: "int \<Rightarrow> int \<times> int" where
  "decode code = (code div BASE, code mod BASE)"

text \<open>Lines 32-33: a class is the pair \<^verbatim>\<open>[Value, CoverClass]\<close>.\<close>

type_synonym cover_class = "int \<times> string"

text \<open>Line 37: an entry of \<^verbatim>\<open>cls\<close> is \<^verbatim>\<open>[int(c[0]*100) + int(i[0]), c, i]\<close>.\<close>

type_synonym cls_entry = "int \<times> cover_class \<times> cover_class"

definition cls_entry_of :: "cover_class \<Rightarrow> cover_class \<Rightarrow> cls_entry" where
  "cls_entry_of c i = (fst c * 100 + fst i, c, i)"

text \<open>
  Lines 35-37: \<^verbatim>\<open>cls = []\<close>, then for every \<^verbatim>\<open>c\<close> of \<^verbatim>\<open>cls_t1\<close> one entry
  is appended for every \<^verbatim>\<open>i\<close> of \<^verbatim>\<open>cls_t2\<close>.
\<close>

fun cls_append :: "cls_entry list \<Rightarrow> cover_class \<Rightarrow> cover_class list \<Rightarrow> cls_entry list" where
  "cls_append cls c [] = cls"
| "cls_append cls c (i # is) = cls_append (cls @ [cls_entry_of c i]) c is"

fun cls_loop :: "cls_entry list \<Rightarrow> cover_class list \<Rightarrow> cover_class list \<Rightarrow> cls_entry list" where
  "cls_loop cls [] cls_t2 = cls"
| "cls_loop cls (c # cs) cls_t2 = cls_loop (cls_append cls c cls_t2) cs cls_t2"

definition all_cls :: "cover_class list \<Rightarrow> cover_class list \<Rightarrow> cls_entry list" where
  "all_cls cls_t1 cls_t2 = cls_loop [] cls_t1 cls_t2"

subsection \<open>change_rast: filling the attribute table\<close>

text \<open>A row of the raster attribute table as built by the raster engine.\<close>

record freq_row =
  Value :: int
  Count :: int

text \<open>The same row once the fields of lines 39-43 are calculated.\<close>

record chg_row = freq_row +
  start_class :: int
  start_class_name :: string
  end_class :: int
  end_class_name :: string
  change_type :: string

text \<open>
  Line 47: \<^verbatim>\<open>v = [i for i in cls if i[0] == r[0]][0]\<close>; indexing the empty list
  raises \<open>IndexError\<close>.
\<close>

definition find_cls :: "cls_entry list \<Rightarrow> int \<Rightarrow> py_error + cls_entry" where
  "find_cls cls val =
     (case filter (\<lambda>i. fst i = val) cls of
        [] \<Rightarrow> Inl IndexError
      | v # _ \<Rightarrow> Inr v)"

text \<open>Lines 47-52: one pass of the update cursor's loop body.\<close>

definition calc_row :: "cls_entry list \<Rightarrow> freq_row \<Rightarrow> py_error + chg_row" where
  "calc_row cls r =
     (case find_cls cls (Value r) of
        Inl e \<Rightarrow> Inl e
      | Inr v \<Rightarrow>
          (let r1 = fst (fst (snd v)); r2 = snd (fst (snd v));
               r3 = fst (snd (snd v)); r4 = snd (snd (snd v))
           in Inr \<lparr> Value = Value r, Count = Count r,
                    start_class = r1, start_class_name = r2,
                    end_class = r3, end_class_name = r4,
                    change_type = (if r1 \<noteq> r3 then r2 @ '' to '' @ r4 else ''No change'') \<rparr>))"

text \<open>Lines 45-53: the loop over the rows; an exception ends it.\<close>

fun calc_fields :: "cls_entry list \<Rightarrow> freq_row list \<Rightarrow> py_error + chg_row list" where
  "calc_fields cls [] = Inr []"
| "calc_fields cls (r # rs) =
     (case calc_row cls r of
        Inl e \<Rightarrow> Inl e
      | Inr r' \<Rightarrow> (case calc_fields cls rs of Inl e \<Rightarrow> Inl e | Inr rs' \<Rightarrow> Inr (r' # rs')))"

subsection \<open>change_summary: the six classes\<close>

text \<open>The rows of \<^verbatim>\<open>tmp_tab\<close>: a copy of the change table with the field \<^verbatim>\<open>reclass\<close>.\<close>

record tmp_row = chg_row +
  reclass :: int

definition set_reclass :: "chg_row \<Rightarrow> int \<Rightarrow> tmp_row" where
  "set_reclass r v =
     \<lparr> Value = Value r, Count = Count r,
       start_class = start_class r, start_class_name = start_class_name r,
       end_class = end_class r, end_class_name = end_class_name r,
       change_type = change_type r, reclass = v \<rparr>"

text \<open>
  Lines 83 and 88-104: the chain of \<^verbatim>\<open>if\<close>/\<^verbatim>\<open>elif\<close> on \<^verbatim>\<open>sc\<close> and
  \<^verbatim>\<open>ec\<close>, in the order of the source; \<^verbatim>\<open>in\<close> is membership in a Python list.
\<close>

definition summary_reclass :: "int list \<Rightarrow> int list \<Rightarrow> bool \<Rightarrow> int \<Rightarrow> int \<Rightarrow> int" where
  "summary_reclass start_cls end_cls backwards sc ec =
     (let comb_class = start_cls @ end_cls in
      if sc \<in> set start_cls \<and> ec \<in> set start_cls then 1
      else if sc \<in> set start_cls \<and> ec \<in> set end_cls then 2
      else if sc \<in> set start_cls \<and> ec \<notin> set comb_class then 3
      else if sc \<in> set end_cls \<and> ec \<in> set start_cls then 4
      else if sc \<notin> set comb_class \<and> ec \<in> set start_cls then
        (if backwards then 5 else 4)
      else 0)"

text \<open>Lines 86-105: the update cursor over \<^verbatim>\<open>tmp_tab\<close>.\<close>

definition summary_rows :: "int list \<Rightarrow> int list \<Rightarrow> bool \<Rightarrow> chg_row list \<Rightarrow> tmp_row list" where
  "summary_rows start_cls end_cls backwards rows =
     map (\<lambda>r. set_reclass r
            (summary_reclass start_cls end_cls backwards (start_class r) (end_class r))) rows"

subsection \<open>Python's str and int on integers\<close>

definition digit_char :: "nat \<Rightarrow> char" where
  "digit_char d = char_of (48 + d)"

fun str_nat :: "nat \<Rightarrow> string" where
  "str_nat n = (if n < 10 then [digit_char n] else str_nat (n div 10) @ [digit_char (n mod 10)])"

declare str_nat.simps [simp del]

text \<open>\<^verbatim>\<open>str(i)\<close> for an integer: the decimal digits, after a minus sign when negative.\<close>

definition py_str :: "int \<Rightarrow> string" where
  "py_str i = (if i < 0 then CHR ''-'' # str_nat (nat (- i)) else str_nat (nat i))"

definition is_digit :: "char \<Rightarrow> bool" where
  "is_digit c = (48 \<le> (of_char c :: nat) \<and> (of_char c :: nat) \<le> 57)"

definition digit_val :: "char \<Rightarrow> nat" where
  "digit_val c = of_char c - 48"

definition digits_val :: "string \<Rightarrow> nat" where
  "digits_val s = foldl (\<lambda>a c. a * 10 + digit_val c) 0 s"

definition parse_digits :: "string \<Rightarrow> py_error + int" where
  "parse_digits s =
     (if s \<noteq> [] \<and> list_all is_digit s then Inr (int (digits_val s)) else Inl ValueError)"

text \<open>
  \<^verbatim>\<open>int(s)\<close> for a string: an optional sign and a non-empty run of decimal digits,
  \<open>ValueError\<close> otherwise.  Python also accepts surrounding white space and single
  underscores between digits; \<open>py_int\<close> is only ever applied to concatenations of
  \<open>py_str\<close> results, which hold digits and minus signs only.
\<close>

definition py_int :: "string \<Rightarrow> py_error + int" where
  "py_int s =
     (case s of
        [] \<Rightarrow> Inl ValueError
      | c # ds \<Rightarrow>
          if c = CHR ''-'' then
            (case parse_digits ds of Inl e \<Rightarrow> Inl e | Inr v \<Rightarrow> Inr (- v))
          else if c = CHR ''+'' then parse_digits ds
          else parse_digits s)"

subsection \<open>change_to_from: collapsing around the start classes\<close>

text \<open>
  Lines 166-191: the loop body, with \<^verbatim>\<open>repl = str(start_cls[0])\<close> of line 162.
  The new class of a change is \<^verbatim>\<open>int(repl + str(ec))\<close> or
  \<^verbatim>\<open>int(str(sc) + repl)\<close>: \<^verbatim>\<open>+\<close> concatenates the two strings.
\<close>

definition to_from_row :: "int list \<Rightarrow> string \<Rightarrow> string \<Rightarrow> chg_row \<Rightarrow> py_error + tmp_row" where
  "to_from_row start_cls start_cls_nm repl r =
     (let sc = start_class r; ec = end_class r in
      if sc \<in> set start_cls then
        if ec \<in> set start_cls then
          Inr ((set_reclass r 1) \<lparr> change_type := start_cls_nm @ '' both time periods'' \<rparr>)
        else
          (case py_int repl of
             Inl e \<Rightarrow> Inl e
           | Inr r0 \<Rightarrow>
               (case py_int (repl @ py_str ec) of
                  Inl e \<Rightarrow> Inl e
                | Inr r4 \<Rightarrow>
                    Inr ((set_reclass r r4)
                          \<lparr> start_class := r0, start_class_name := start_cls_nm,
                            change_type := start_cls_nm @ '' to '' @ end_class_name r \<rparr>)))
      else
        if ec \<in> set start_cls then
          (case py_int repl of
             Inl e \<Rightarrow> Inl e
           | Inr r2 \<Rightarrow>
               (case py_int (py_str sc @ repl) of
                  Inl e \<Rightarrow> Inl e
                | Inr r4 \<Rightarrow>
                    Inr ((set_reclass r r4)
                          \<lparr> end_class := r2, end_class_name := start_cls_nm,
                            change_type := start_class_name r @ '' to '' @ start_cls_nm \<rparr>)))
        else
          Inr ((set_reclass r 0)
                \<lparr> change_type := ''Not '' @ start_cls_nm @ '' either time period'' \<rparr>))"

fun to_from_loop :: "int list \<Rightarrow> string \<Rightarrow> string \<Rightarrow> chg_row list \<Rightarrow> py_error + tmp_row list" where
  "to_from_loop start_cls start_cls_nm repl [] = Inr []"
| "to_from_loop start_cls start_cls_nm repl (r # rs) =
     (case to_from_row start_cls start_cls_nm repl r of
        Inl e \<Rightarrow> Inl e
      | Inr r' \<Rightarrow>
          (case to_from_loop start_cls start_cls_nm repl rs of
             Inl e \<Rightarrow> Inl e
           | Inr rs' \<Rightarrow> Inr (r' # rs')))"

text \<open>Lines 162-192; \<^verbatim>\<open>start_cls[0]\<close> raises \<open>IndexError\<close> on the empty list.\<close>

definition to_from_rows :: "int list \<Rightarrow> string \<Rightarrow> chg_row list \<Rightarrow> py_error + tmp_row list" where
  "to_from_rows start_cls start_cls_nm rows =
     (case start_cls of
        [] \<Rightarrow> Inl IndexError
      | x # _ \<Rightarrow> to_from_loop start_cls start_cls_nm (py_str x) rows)"

text \<open>
  What the loop makes of the pair \<open>(sc, ec)\<close> alone: the rewritten start class, the
  rewritten end class and the new class, read from a row that holds the pair (the other
  fields do not enter the three results).
\<close>

definition to_from_pair :: "int list \<Rightarrow> int \<Rightarrow> int \<Rightarrow> py_error + (int \<times> int \<times> int)" where
  "to_from_pair start_cls sc ec =
     (case to_from_rows start_cls []
             [\<lparr> Value = rc sc ec, Count = 0, start_class = sc, start_class_name = [],
                end_class = ec, end_class_name = [], change_type = [] \<rparr>] of
        Inl e \<Rightarrow> Inl e
      | Inr rs \<Rightarrow> Inr (start_class (hd rs), end_class (hd rs), reclass (hd rs)))"

definition to_from_reclass :: "int list \<Rightarrow> int \<Rightarrow> int \<Rightarrow> py_error + int" where
  "to_from_reclass start_cls sc ec =
     (case to_from_pair start_cls sc ec of
        Inl e \<Rightarrow> Inl e
      | Inr t \<Rightarrow> Inr (snd (snd t)))"

subsection \<open>Areas and percentages\<close>

text \<open>
  The field calculator evaluates a Python 3 expression for each row, and the result is
  stored in a floating-point field.  The expressions are modelled by their exact value in
  \<^typ>\<open>rat\<close>; the rounding of the floating-point arithmetic and of the field is the
  raster engine's and is not modelled.  A field that is not calculated stays null
  (\<open>None\<close>).
\<close>

record stat_row = freq_row +
  area_ha :: rat
  perc :: "rat option"

text \<open>Lines 55, 133 and 203: \<^verbatim>\<open>(!Count! * 900) / 10000\<close>.\<close>

definition area_ha_expr :: "int \<Rightarrow> rat" where
  "area_ha_expr count = (of_int count * 900) / 10000"

definition calc_area_ha :: "freq_row list \<Rightarrow> stat_row list" where
  "calc_area_ha rows =
     map (\<lambda>r. \<lparr> Value = Value r, Count = Count r,
                area_ha = area_ha_expr (Count r), perc = None \<rparr>) rows"

text \<open>
  Lines 57, 137 and 205: \<^verbatim>\<open>(!Count! / total_cells) * 100\<close>, with the value of
  \<^verbatim>\<open>total_cells\<close> written into the expression; \<^verbatim>\<open>/\<close> by zero raises
  \<open>ZeroDivisionError\<close>.
\<close>

definition perc_expr :: "int \<Rightarrow> int \<Rightarrow> py_error + rat" where
  "perc_expr count total_cells =
     (if total_cells = 0 then Inl ZeroDivisionError
      else Inr ((of_int count / of_int total_cells) * 100))"

text \<open>
  The field calculator on a table view: the expression is evaluated for the rows of the
  view (those satisfying the where clause) only, in turn; the other rows are untouched.
\<close>

fun calc_perc :: "(stat_row \<Rightarrow> bool) \<Rightarrow> int \<Rightarrow> stat_row list \<Rightarrow> py_error + stat_row list" where
  "calc_perc wh total_cells [] = Inr []"
| "calc_perc wh total_cells (r # rs) =
     (if wh r then
        (case perc_expr (Count r) total_cells of
           Inl e \<Rightarrow> Inl e
         | Inr p \<Rightarrow>
             (case calc_perc wh total_cells rs of
                Inl e \<Rightarrow> Inl e
              | Inr rs' \<Rightarrow> Inr (r \<lparr> perc := Some p \<rparr> # rs')))
      else
        (case calc_perc wh total_cells rs of
           Inl e \<Rightarrow> Inl e
         | Inr rs' \<Rightarrow> Inr (r # rs')))"

text \<open>
  \<^verbatim>\<open>total_cells = sum([int(a[0]) for a in SearchCursor(tab, ["Count"])])\<close> over
  the rows of the view.
\<close>

definition total_cells :: "(stat_row \<Rightarrow> bool) \<Rightarrow> stat_row list \<Rightarrow> int" where
  "total_cells wh rows = sum_list (map Count (filter wh rows))"

definition percent_of_view :: "(stat_row \<Rightarrow> bool) \<Rightarrow> stat_row list \<Rightarrow> py_error + stat_row list" where
  "percent_of_view wh rows = calc_perc wh (total_cells wh rows) rows"

text \<open>
  Each of the three functions ends with the same two steps: the field \<^verbatim>\<open>area_ha\<close>
  is calculated for every row, then the percentage.  The area is written before the
  percentage is attempted, so the first step is a function of its own; the second step
  may raise.
\<close>

text \<open>change_rast, line 55: the area.\<close>

definition change_rast_area :: "freq_row list \<Rightarrow> stat_row list" where
  "change_rast_area rows = calc_area_ha rows"

text \<open>change_rast, lines 55-57: area, then \<^verbatim>\<open>perc_total\<close> over the whole table.\<close>

definition change_rast_stats :: "freq_row list \<Rightarrow> py_error + stat_row list" where
  "change_rast_stats rows = percent_of_view (\<lambda>r. True) (change_rast_area rows)"

text \<open>change_summary, line 133: the area.\<close>

definition change_summary_area :: "freq_row list \<Rightarrow> stat_row list" where
  "change_summary_area rows = calc_area_ha rows"

text \<open>
  change_summary, lines 133-137: area, then \<^verbatim>\<open>perc_of_t1_area\<close> over the view
  \<^verbatim>\<open>Value IN (1, 2, 3)\<close>.
\<close>

definition change_summary_stats :: "freq_row list \<Rightarrow> py_error + stat_row list" where
  "change_summary_stats rows =
     percent_of_view (\<lambda>r. Value r \<in> {1, 2, 3}) (change_summary_area rows)"

text \<open>change_to_from, line 203: the area.\<close>

definition change_to_from_area :: "freq_row list \<Rightarrow> stat_row list" where
  "change_to_from_area rows = calc_area_ha rows"

text \<open>change_to_from, lines 203-205: area, then \<^verbatim>\<open>perc_area\<close> over the whole table.\<close>

definition change_to_from_stats :: "freq_row list \<Rightarrow> py_error + stat_row list" where
  "change_to_from_stats rows = percent_of_view (\<lambda>r. True) (change_to_from_area rows)"

text \<open>LandscapeChange.py, tabLcTypes, line 127: the hectares field is \<^verbatim>\<open>!Count!*0.09\<close>.\<close>

definition tabLcTypes_area_ha :: "int \<Rightarrow> rat" where
  "tabLcTypes_area_ha count = of_int count * 0.09"

section \<open>Properties\<close>

subsection \<open>The list of all combinations\<close>

lemma cls_append_eq: "cls_append cls c is = cls @ map (cls_entry_of c) is"
  by (induction "is" arbitrary: cls) simp_all

lemma cls_loop_eq:
  "cls_loop cls cs cls_t2 = cls @ concat (map (\<lambda>c. map (cls_entry_of c) cls_t2) cs)"
  by (induction cs arbitrary: cls) (simp_all add: cls_append_eq)

lemma all_cls_product:
  "all_cls cls_t1 cls_t2 = map (\<lambda>(c, i). cls_entry_of c i) (List.product cls_t1 cls_t2)"
proof -
  have "concat (map (\<lambda>c. map (cls_entry_of c) cls_t2) cls_t1)
        = map (\<lambda>(c, i). cls_entry_of c i) (List.product cls_t1 cls_t2)"
    by (induction cls_t1) (simp_all add: comp_def)
  then show ?thesis by (simp add: all_cls_def cls_loop_eq)
qed

lemma code_div:
  fixes s e :: int
  assumes "0 \<le> e" "e < 100"
  shows "(s * 100 + e) div 100 = s" and "(s * 100 + e) mod 100 = e"
  using assms by simp_all

lemma code_inj:
  fixes s e s' e' :: int
  assumes eq: "s * 100 + e = s' * 100 + e'" and b: "0 \<le> e" "e < 100" "0 \<le> e'" "e' < 100"
  shows "s = s' \<and> e = e'"
proof -
  have "s = (s * 100 + e) div 100" using b by (simp add: code_div)
  also have "\<dots> = (s' * 100 + e') div 100" by (simp only: eq)
  also have "\<dots> = s'" using b by (simp add: code_div)
  finally have "s = s'" .
  with eq show ?thesis by simp
qed

lemma distinct_fst_imp: "distinct (map fst xs) \<Longrightarrow> distinct xs"
  by (rule distinct_map [THEN iffD1, THEN conjunct1])

lemma distinct_codes:
  assumes d1: "distinct (map fst cls_t1)" and d2: "distinct (map fst cls_t2)"
    and r2: "\<forall>i \<in> set cls_t2. 0 \<le> fst i \<and> fst i < 100"
  shows "distinct (map fst (all_cls cls_t1 cls_t2))"
proof -
  let ?f = "\<lambda>p :: cover_class \<times> cover_class. fst (fst p) * 100 + fst (snd p)"
  have eq: "map fst (all_cls cls_t1 cls_t2) = map ?f (List.product cls_t1 cls_t2)"
    by (simp add: all_cls_product cls_entry_of_def comp_def case_prod_beta)
  have i1: "inj_on fst (set cls_t1)" and i2: "inj_on fst (set cls_t2)"
    using d1 d2 by (simp_all add: distinct_map)
  have "inj_on ?f (set (List.product cls_t1 cls_t2))"
  proof (rule inj_onI)
    fix p q
    assume p: "p \<in> set (List.product cls_t1 cls_t2)" and q: "q \<in> set (List.product cls_t1 cls_t2)"
      and e: "?f p = ?f q"
    from p q r2 have b: "0 \<le> fst (snd p)" "fst (snd p) < 100" "0 \<le> fst (snd q)" "fst (snd q) < 100"
      by auto
    from code_inj [OF e b] have "fst (fst p) = fst (fst q)" "fst (snd p) = fst (snd q)" by simp_all
    moreover from p q have "fst p \<in> set cls_t1" "fst q \<in> set cls_t1" "snd p \<in> set cls_t2" "snd q \<in> set cls_t2"
      by auto
    ultimately have "fst p = fst q" "snd p = snd q"
      using i1 i2 by (auto dest: inj_onD)
    then show "p = q" by (simp add: prod_eq_iff)
  qed
  moreover have "distinct (List.product cls_t1 cls_t2)"
    using d1 d2 by (simp add: distinct_product distinct_fst_imp)
  ultimately show ?thesis by (simp add: eq distinct_map)
qed

lemma all_cls_nth:
  assumes a: "a < length cls_t1" and b: "b < length cls_t2"
  shows "all_cls cls_t1 cls_t2 ! (a * length cls_t2 + b) = cls_entry_of (cls_t1 ! a) (cls_t2 ! b)"
proof -
  let ?m = "length cls_t2"
  have "a * ?m + b < Suc a * ?m" using b by simp
  also have "\<dots> \<le> length cls_t1 * ?m" using a by (intro mult_le_mono1) simp
  finally have lt: "a * ?m + b < length cls_t1 * ?m" .
  have m0: "0 < ?m" using b by (cases cls_t2) simp_all
  have dm: "(a * ?m + b) div ?m = a" "(a * ?m + b) mod ?m = b"
    using b m0 by simp_all
  from lt dm show ?thesis
    by (simp add: all_cls_product product_nth)
qed

lemma find_cls_uncovered: "val \<notin> fst ` set cls \<Longrightarrow> find_cls cls val = Inl IndexError"
proof -
  assume "val \<notin> fst ` set cls"
  then have "filter (\<lambda>i. fst i = val) cls = []"
    by (auto simp: filter_empty_conv)
  then show ?thesis by (simp add: find_cls_def)
qed

lemma calc_row_error: "calc_row cls r = Inl e \<Longrightarrow> e = IndexError"
  by (auto simp: calc_row_def find_cls_def Let_def split: list.splits sum.splits)

lemma calc_fields_error: "calc_fields cls rows = Inl e \<Longrightarrow> e = IndexError"
  by (induction rows arbitrary: e) (auto split: sum.splits dest: calc_row_error)

lemma calc_fields_uncovered:
  "r \<in> set rows \<Longrightarrow> Value r \<notin> fst ` set cls \<Longrightarrow> calc_fields cls rows = Inl IndexError"
proof (induction rows)
  case Nil
  then show ?case by simp
next
  case (Cons x rows)
  show ?case
  proof (cases "calc_row cls x")
    case (Inl e)
    then show ?thesis using calc_row_error [OF Inl] by simp
  next
    case (Inr x')
    with Cons.prems have "r \<noteq> x" by (auto simp: calc_row_def find_cls_uncovered)
    with Cons have "calc_fields cls rows = Inl IndexError" by simp
    with Inr show ?thesis by simp
  qed
qed


text \<open>
  The scan of line 47 finds the entry of a pair of the cross product, and the classes
  it writes into the row are the ones \<open>decode\<close> reads from the code.
\<close>

lemma filter_fst_distinct:
  "distinct (map fst xs) \<Longrightarrow> e \<in> set xs \<Longrightarrow> filter (\<lambda>x. fst x = fst e) xs = [e]"
proof (induction xs)
  case Nil
  then show ?case by simp
next
  case (Cons x xs)
  show ?case
  proof (cases "x = e")
    case True
    with Cons.prems have "fst e \<notin> fst ` set xs" by simp
    then have "filter (\<lambda>x. fst x = fst e) xs = []"
      by (force simp: filter_empty_conv image_iff)
    with True show ?thesis by simp
  next
    case False
    with Cons.prems have e: "e \<in> set xs" by simp
    with Cons.prems have "fst x \<noteq> fst e" by auto
    with Cons e show ?thesis by simp
  qed
qed

lemma find_cls_all_cls:
  assumes "distinct (map fst cls_t1)" and "distinct (map fst cls_t2)"
    and "\<forall>i \<in> set cls_t2. 0 \<le> fst i \<and> fst i < 100"
    and "c \<in> set cls_t1" and "i \<in> set cls_t2"
  shows "find_cls (all_cls cls_t1 cls_t2) (rc (fst c) (fst i)) = Inr (rc (fst c) (fst i), c, i)"
proof -
  let ?e = "(rc (fst c) (fst i), c, i)"
  have d: "distinct (map fst (all_cls cls_t1 cls_t2))"
    using assms(1-3) by (rule distinct_codes)
  have "?e \<in> set (all_cls cls_t1 cls_t2)"
    using assms(4,5) by (force simp: all_cls_product cls_entry_of_def rc_def)
  from filter_fst_distinct [OF d this] show ?thesis
    by (simp add: find_cls_def)
qed

lemma calc_row_decode:
  assumes "distinct (map fst cls_t1)" and "distinct (map fst cls_t2)"
    and "\<forall>i \<in> set cls_t2. 0 \<le> fst i \<and> fst i < 100"
    and "c \<in> set cls_t1" and "i \<in> set cls_t2"
    and "Value r = rc (fst c) (fst i)"
  shows "\<exists>r'. calc_row (all_cls cls_t1 cls_t2) r = Inr r'
           \<and> (start_class r', end_class r') = decode (Value r)
           \<and> start_class_name r' = snd c \<and> end_class_name r' = snd i"
proof -
  from assms(3,5) have "0 \<le> fst i" "fst i < 100" by auto
  then have "decode (rc (fst c) (fst i)) = (fst c, fst i)"
    by (simp add: decode_def rc_def BASE_def)
  with find_cls_all_cls [OF assms(1-5)] assms(6) show ?thesis
    by (simp add: calc_row_def Let_def)
qed

subsection \<open>Decimal strings\<close>

lemma of_char_digit_char: "d < 10 \<Longrightarrow> (of_char (digit_char d) :: nat) = 48 + d"
  by (simp add: digit_char_def)

lemma is_digit_digit_char: "d < 10 \<Longrightarrow> is_digit (digit_char d)"
  by (simp add: is_digit_def of_char_digit_char)

lemma digit_val_digit_char: "d < 10 \<Longrightarrow> digit_val (digit_char d) = d"
  by (simp add: digit_val_def of_char_digit_char)

lemma is_digit_not_sign: "is_digit c \<Longrightarrow> c \<noteq> CHR ''-'' \<and> c \<noteq> CHR ''+''"
  by (auto simp: is_digit_def)

lemma str_nat_digits: "list_all is_digit (str_nat n)"
proof (induction n rule: str_nat.induct)
  case (1 n)
  show ?case
  proof (cases "n < 10")
    case True
    then show ?thesis by (subst str_nat.simps) (simp add: is_digit_digit_char)
  next
    case False
    with 1 show ?thesis by (subst str_nat.simps) (simp add: is_digit_digit_char)
  qed
qed

lemma str_nat_not_Nil: "str_nat n \<noteq> []"
  by (subst str_nat.simps) simp

lemma digits_val_append:
  "digits_val (xs @ ys) = digits_val xs * 10 ^ length ys + digits_val ys"
  by (induction ys rule: rev_induct) (simp_all add: digits_val_def algebra_simps flip: append_assoc)

lemma digits_val_str_nat: "digits_val (str_nat n) = n"
proof (induction n rule: str_nat.induct)
  case (1 n)
  show ?case
  proof (cases "n < 10")
    case True
    then show ?thesis
      by (subst str_nat.simps) (simp add: digits_val_def digit_val_digit_char)
  next
    case False
    with 1 have "digits_val (str_nat (n div 10)) = n div 10" by simp
    with False show ?thesis
      by (subst str_nat.simps) (simp add: digits_val_append, simp add: digits_val_def digit_val_digit_char)
  qed
qed

lemma parse_digits_append:
  "parse_digits (str_nat a @ str_nat b) = Inr (int (a * 10 ^ length (str_nat b) + b))"
  using str_nat_digits [of a] str_nat_digits [of b] str_nat_not_Nil [of a]
  by (simp add: parse_digits_def digits_val_append digits_val_str_nat)

lemma parse_digits_str_nat: "parse_digits (str_nat a) = Inr (int a)"
  using str_nat_digits [of a] str_nat_not_Nil [of a]
  by (simp add: parse_digits_def digits_val_str_nat)

lemma hd_str_nat: "\<exists>c cs. str_nat n = c # cs \<and> is_digit c"
  using str_nat_digits [of n] str_nat_not_Nil [of n] by (cases "str_nat n") auto

lemma py_int_digits: "s = c # cs \<Longrightarrow> is_digit c \<Longrightarrow> py_int s = parse_digits s"
  by (auto simp: py_int_def dest: is_digit_not_sign)

lemma py_int_py_str: "py_int (py_str i) = Inr i"
proof (cases "i < 0")
  case True
  then show ?thesis by (simp add: py_str_def py_int_def parse_digits_str_nat)
next
  case False
  obtain c cs where h: "str_nat (nat i) = c # cs" "is_digit c" using hd_str_nat by blast
  have "py_int (str_nat (nat i)) = parse_digits (str_nat (nat i))"
    by (rule py_int_digits [OF h])
  also have "\<dots> = Inr (int (nat i))" by (rule parse_digits_str_nat)
  finally show ?thesis using False by (simp add: py_str_def)
qed

lemma py_int_concat:
  assumes "0 \<le> a" "0 \<le> b"
  shows "py_int (py_str a @ py_str b) = Inr (a * 10 ^ length (py_str b) + b)"
proof -
  obtain c cs where h: "str_nat (nat a) = c # cs" "is_digit c" using hd_str_nat by blast
  then have "py_int (str_nat (nat a) @ str_nat (nat b)) = parse_digits (str_nat (nat a) @ str_nat (nat b))"
    using py_int_digits [of "str_nat (nat a) @ str_nat (nat b)" c "cs @ str_nat (nat b)"] by simp
  with assms show ?thesis
    by (simp add: py_str_def parse_digits_append)
qed

lemma length_str_nat: "n < 100 \<Longrightarrow> length (str_nat n) = (if n < 10 then 1 else 2)"
proof (cases "n < 10")
  case True
  then show ?thesis by (subst str_nat.simps) simp
next
  case False
  assume "n < 100"
  then have "n div 10 < 10" by simp
  then have "length (str_nat (n div 10)) = 1" by (subst str_nat.simps) simp
  with False show ?thesis by (subst str_nat.simps) simp
qed

lemma length_py_str:
  "0 \<le> b \<Longrightarrow> b < 100 \<Longrightarrow> length (py_str b) = (if b < 10 then 1 else 2)"
  using length_str_nat [of "nat b"] by (auto simp: py_str_def)


subsection \<open>The combined code\<close>

text \<open>
  C4.  For every pair of class values \<open>s\<close> and \<open>e\<close> with \<open>0 \<le> s < BASE\<close> and
  \<open>0 \<le> e < BASE\<close>, decoding the combined code \<open>s * 100 + e\<close> of the raster
  calculator by \<open>div\<close> and \<open>mod\<close> \<open>BASE\<close> gives the pair back.
\<close>

theorem decode_rc_roundtrip:
  "0 \<le> s \<Longrightarrow> s < BASE \<Longrightarrow> 0 \<le> e \<Longrightarrow> e < BASE \<Longrightarrow> decode (rc s e) = (s, e)"
  by (simp add: decode_def rc_def BASE_def)

theorem decode_rc_roundtrip_witness:
  "(0::int) \<le> 41 \<and> 41 < BASE \<and> (0::int) \<le> 21 \<and> 21 < BASE \<and> decode (rc 41 21) = (41, 21)"
proof -
  have h: "(0::int) \<le> 41" "41 < BASE" "(0::int) \<le> 21" "21 < BASE" by (simp_all add: BASE_def)
  from decode_rc_roundtrip [OF h] h show ?thesis by simp
qed

text \<open>
  C5.  For \<open>N\<close> start classes and \<open>M\<close> end classes, each list with distinct values
  in the range \<open>0 \<le> v < BASE\<close> of class values, the list of combinations has
  \<open>N * M\<close> entries, it is the image of the cross product in start-major, end-minor
  order (entry \<open>a * M + b\<close> combines start class \<open>a\<close> with end class \<open>b\<close>), and its
  codes are pairwise distinct.
\<close>

theorem all_cls_cross_product:
  assumes "distinct (map fst cls_t1)" and "distinct (map fst cls_t2)"
    and "\<forall>c \<in> set cls_t1 \<union> set cls_t2. 0 \<le> fst c \<and> fst c < BASE"
  shows "length (all_cls cls_t1 cls_t2) = length cls_t1 * length cls_t2
       \<and> all_cls cls_t1 cls_t2
           = map (\<lambda>(c, i). (rc (fst c) (fst i), c, i)) (List.product cls_t1 cls_t2)
       \<and> (\<forall>a < length cls_t1. \<forall>b < length cls_t2.
             all_cls cls_t1 cls_t2 ! (a * length cls_t2 + b)
               = (rc (fst (cls_t1 ! a)) (fst (cls_t2 ! b)), cls_t1 ! a, cls_t2 ! b))
       \<and> distinct (map fst (all_cls cls_t1 cls_t2))"
proof -
  have "\<forall>i \<in> set cls_t2. 0 \<le> fst i \<and> fst i < 100"
    using assms(3) by (simp add: BASE_def)
  with assms(1,2) have "distinct (map fst (all_cls cls_t1 cls_t2))"
    by (rule distinct_codes)
  moreover have "length (all_cls cls_t1 cls_t2) = length cls_t1 * length cls_t2"
    by (simp add: all_cls_product)
  moreover have "all_cls cls_t1 cls_t2
      = map (\<lambda>(c, i). (rc (fst c) (fst i), c, i)) (List.product cls_t1 cls_t2)"
    by (simp add: all_cls_product cls_entry_of_def rc_def)
  moreover have "\<forall>a < length cls_t1. \<forall>b < length cls_t2.
      all_cls cls_t1 cls_t2 ! (a * length cls_t2 + b)
        = (rc (fst (cls_t1 ! a)) (fst (cls_t2 ! b)), cls_t1 ! a, cls_t2 ! b)"
    by (simp add: all_cls_nth cls_entry_of_def rc_def)
  ultimately show ?thesis by blast
qed

theorem all_cls_cross_product_witness:
  "distinct (map fst [(4, ''Natural''), (2 :: int, ''Developed'')])
   \<and> distinct (map fst [(2, ''Developed''), (4, ''Natural''), (9 :: int, ''Other'')])
   \<and> length (all_cls [(4, ''Natural''), (2, ''Developed'')]
                      [(2, ''Developed''), (4, ''Natural''), (9, ''Other'')]) = 6
   \<and> map fst (all_cls [(4, ''Natural''), (2, ''Developed'')]
                      [(2, ''Developed''), (4, ''Natural''), (9, ''Other'')])
       = [402, 404, 409, 202, 204, 209]
   \<and> distinct (map fst (all_cls [(4, ''Natural''), (2, ''Developed'')]
                      [(2, ''Developed''), (4, ''Natural''), (9, ''Other'')]))"
proof -
  let ?t1 = "[(4, ''Natural''), (2 :: int, ''Developed'')]"
  let ?t2 = "[(2, ''Developed''), (4, ''Natural''), (9 :: int, ''Other'')]"
  have h1: "distinct (map fst ?t1)" and h2: "distinct (map fst ?t2)" by simp_all
  have h3: "\<forall>c \<in> set ?t1 \<union> set ?t2. 0 \<le> fst c \<and> fst c < BASE" by (simp add: BASE_def)
  have v: "map fst (all_cls ?t1 ?t2) = [402, 404, 409, 202, 204, 209]"
    by (simp add: all_cls_def cls_entry_of_def)
  from all_cls_cross_product [OF h1 h2 h3] h1 h2 v show ?thesis by simp
qed

text \<open>
  C8.  When the attribute table holds a row whose value is the code of no entry of the
  list of combinations, filling the table ends with \<open>IndexError\<close>, which is a
  \<open>LookupError\<close>: no row list is returned, so the code gets no default class and no
  empty fields.
\<close>

theorem calc_fields_uncovered_code:
  "r \<in> set rows \<Longrightarrow> Value r \<notin> fst ` set cls \<Longrightarrow>
     calc_fields cls rows = Inl IndexError \<and> is_LookupError IndexError"
  by (simp add: calc_fields_uncovered is_LookupError_def)

theorem calc_fields_uncovered_code_witness:
  "calc_fields (all_cls [(4, ''Natural'')] [(2, ''Developed'')])
     [\<lparr> Value = 402, Count = 5 \<rparr>, \<lparr> Value = 909, Count = 1 \<rparr>] = Inl IndexError
   \<and> is_LookupError IndexError"
proof -
  let ?cls = "all_cls [(4, ''Natural'')] [(2, ''Developed'')]"
  let ?r = "\<lparr> Value = 909, Count = 1 \<rparr>"
  have h1: "?r \<in> set [\<lparr> Value = 402, Count = 5 \<rparr>, ?r]" by simp
  have h2: "Value ?r \<notin> fst ` set ?cls" by (simp add: all_cls_def cls_entry_of_def)
  from calc_fields_uncovered_code [OF h1 h2] show ?thesis .
qed

subsection \<open>The six classes of change_summary\<close>

text \<open>
  C1.  With start classes \<open>[4]\<close>, end classes \<open>[2]\<close> and \<open>backwards = False\<close>, the
  chain of rules, taken in the order of the source with the first match deciding, gives
  class 1 to the pair \<open>(4, 4)\<close>, class 2 to \<open>(4, 2)\<close>, class 3 to \<open>(4, 7)\<close>,
  class 4 to \<open>(2, 4)\<close>, class 4 to \<open>(9, 4)\<close> and class 0 to \<open>(9, 9)\<close>.
\<close>

theorem summary_reclass_six_class_example:
  "summary_reclass [4] [2] False 4 4 = 1
   \<and> summary_reclass [4] [2] False 4 2 = 2
   \<and> summary_reclass [4] [2] False 4 7 = 3
   \<and> summary_reclass [4] [2] False 2 4 = 4
   \<and> summary_reclass [4] [2] False 9 4 = 4
   \<and> summary_reclass [4] [2] False 9 9 = 0"
  by (simp add: summary_reclass_def)

text \<open>
  C3.  Two runs that differ in the flag \<open>backwards\<close> only: a pair whose start value is
  in neither list and whose end value is a start class gets class 5 with
  \<open>backwards = True\<close> and class 4 with \<open>backwards = False\<close>; a pair whose start
  value is an end class (and no start class) and whose end value is a start class gets
  class 4 under both values of the flag.  The pairs \<open>(9, 4)\<close> and \<open>(2, 4)\<close> with
  start classes \<open>[4]\<close> and end classes \<open>[2]\<close> are the instance of the witness.
\<close>

theorem summary_reclass_backwards:
  "(sc \<notin> set start_cls \<union> set end_cls \<and> ec \<in> set start_cls \<longrightarrow>
      summary_reclass start_cls end_cls True sc ec = 5
      \<and> summary_reclass start_cls end_cls False sc ec = 4)
   \<and> (sc' \<in> set end_cls \<and> sc' \<notin> set start_cls \<and> ec' \<in> set start_cls \<longrightarrow>
      summary_reclass start_cls end_cls True sc' ec' = 4
      \<and> summary_reclass start_cls end_cls False sc' ec' = 4)"
  by (simp add: summary_reclass_def)

theorem summary_reclass_backwards_witness:
  "summary_reclass [4] [2] True 9 4 = 5 \<and> summary_reclass [4] [2] False 9 4 = 4
   \<and> summary_reclass [4] [2] True 2 4 = 4 \<and> summary_reclass [4] [2] False 2 4 = 4"
proof -
  have h1: "(9::int) \<notin> set [4] \<union> set [2] \<and> (4::int) \<in> set [4]" by simp
  have h2: "(2::int) \<in> set [2] \<and> (2::int) \<notin> set [4] \<and> (4::int) \<in> set [4]" by simp
  from summary_reclass_backwards [of 9 "[4]" "[2]" 4 2 4] h1 h2 show ?thesis by blast
qed

subsection \<open>The collapse of change_to_from\<close>

lemma to_from_row_both:
  "start_class r \<in> set start_cls \<Longrightarrow> end_class r \<in> set start_cls \<Longrightarrow>
   to_from_row start_cls nm repl r
     = Inr ((set_reclass r 1) \<lparr> change_type := nm @ '' both time periods'' \<rparr>)"
  by (simp add: to_from_row_def)

lemma to_from_row_neither:
  "start_class r \<notin> set start_cls \<Longrightarrow> end_class r \<notin> set start_cls \<Longrightarrow>
   to_from_row start_cls nm repl r
     = Inr ((set_reclass r 0) \<lparr> change_type := ''Not '' @ nm @ '' either time period'' \<rparr>)"
  by (simp add: to_from_row_def)

lemma to_from_row_from:
  "start_class r \<in> set start_cls \<Longrightarrow> end_class r \<notin> set start_cls \<Longrightarrow>
   to_from_row start_cls nm (py_str t) r
     = (case py_int (py_str t @ py_str (end_class r)) of
          Inl e \<Rightarrow> Inl e
        | Inr v \<Rightarrow> Inr ((set_reclass r v)
                          \<lparr> start_class := t, start_class_name := nm,
                            change_type := nm @ '' to '' @ end_class_name r \<rparr>))"
  by (simp add: to_from_row_def py_int_py_str)

lemma to_from_row_to:
  "start_class r \<notin> set start_cls \<Longrightarrow> end_class r \<in> set start_cls \<Longrightarrow>
   to_from_row start_cls nm (py_str t) r
     = (case py_int (py_str (start_class r) @ py_str t) of
          Inl e \<Rightarrow> Inl e
        | Inr v \<Rightarrow> Inr ((set_reclass r v)
                          \<lparr> end_class := t, end_class_name := nm,
                            change_type := start_class_name r @ '' to '' @ nm \<rparr>))"
  by (simp add: to_from_row_def py_int_py_str)

lemma to_from_rows_single:
  "to_from_rows (t # ts) nm [r]
     = (case to_from_row (t # ts) nm (py_str t) r of Inl e \<Rightarrow> Inl e | Inr r' \<Rightarrow> Inr [r'])"
  by (simp add: to_from_rows_def split: sum.splits)

lemma to_from_pair_eq:
  "to_from_pair (t # ts) sc ec =
     (if sc \<in> set (t # ts) then
        if ec \<in> set (t # ts) then Inr (sc, ec, 1)
        else (case py_int (py_str t @ py_str ec) of Inl e \<Rightarrow> Inl e | Inr v \<Rightarrow> Inr (t, ec, v))
      else
        if ec \<in> set (t # ts) then
          (case py_int (py_str sc @ py_str t) of Inl e \<Rightarrow> Inl e | Inr v \<Rightarrow> Inr (sc, t, v))
        else Inr (sc, ec, 0))"
  unfolding to_from_pair_def to_from_rows_single
  by (simp add: to_from_row_both to_from_row_neither to_from_row_from to_from_row_to
      set_reclass_def split: sum.splits)


lemma to_from_rows_fields:
  "(case to_from_rows (t # ts) nm [r] of
      Inl e \<Rightarrow> Inl e
    | Inr rs \<Rightarrow> Inr (map (\<lambda>r'. (start_class r', end_class r', reclass r')) rs))
   = (case to_from_pair (t # ts) (start_class r) (end_class r) of
        Inl e \<Rightarrow> Inl e
      | Inr x \<Rightarrow> Inr [x])"
  unfolding to_from_rows_single to_from_pair_eq
  by (simp add: to_from_row_both to_from_row_neither to_from_row_from to_from_row_to
      set_reclass_def split: sum.splits)

lemma to_from_reclass_eq:
  "to_from_reclass (t # ts) sc ec =
     (if sc \<in> set (t # ts) then
        if ec \<in> set (t # ts) then Inr 1 else py_int (py_str t @ py_str ec)
      else
        if ec \<in> set (t # ts) then py_int (py_str sc @ py_str t) else Inr 0)"
  by (simp add: to_from_reclass_def to_from_pair_eq split: sum.splits)

lemma concat_code:
  assumes "0 \<le> a" "0 \<le> b" "b < 100"
  shows "py_int (py_str a @ py_str b) = Inr (a * (if b < 10 then 10 else 100) + b)"
  using assms by (simp add: py_int_concat length_py_str)

text \<open>
  C2 (as amended).  With class values and the first start class \<open>t\<close> in the range
  \<open>0 \<le> v < BASE\<close>: a pair inside the start classes on both sides gets the new
  class 1; a pair leaving them gets the number written by the digits of \<open>t\<close>
  followed by the digits of \<open>ec\<close>, that is \<open>t * 100 + ec\<close> when \<open>ec\<close> has two
  digits and \<open>t * 10 + ec\<close> when it has one; a pair entering them gets the digits of
  \<open>sc\<close> followed by those of \<open>t\<close>, that is \<open>sc * 100 + t\<close> when \<open>t\<close> has two
  digits and \<open>sc * 10 + t\<close> when it has one; any other pair gets 0.  For the start
  classes \<open>[4]\<close>: \<open>(4, 4)\<close> gives 1, \<open>(4, 2)\<close> gives 42, \<open>(9, 4)\<close> gives 94
  and \<open>(9, 9)\<close> gives 0.
\<close>

theorem to_from_reclass_digits:
  assumes "start_cls = t # ts" and "0 \<le> t" and "t < BASE"
    and "0 \<le> sc" and "sc < BASE" and "0 \<le> ec" and "ec < BASE"
  shows "to_from_reclass start_cls sc ec =
     Inr (if sc \<in> set start_cls then
            if ec \<in> set start_cls then 1 else t * (if ec < 10 then 10 else 100) + ec
          else
            if ec \<in> set start_cls then sc * (if t < 10 then 10 else 100) + t else 0)"
proof -
  have "py_int (py_str t @ py_str ec) = Inr (t * (if ec < 10 then 10 else 100) + ec)"
    using assms by (intro concat_code) (simp_all add: BASE_def)
  moreover have "py_int (py_str sc @ py_str t) = Inr (sc * (if t < 10 then 10 else 100) + t)"
    using assms by (intro concat_code) (simp_all add: BASE_def)
  ultimately show ?thesis
    unfolding assms(1) to_from_reclass_eq by simp
qed

theorem to_from_reclass_digits_witness:
  "to_from_reclass [4] 4 4 = Inr 1 \<and> to_from_reclass [4] 4 2 = Inr 42
   \<and> to_from_reclass [4] 9 4 = Inr 94 \<and> to_from_reclass [4] 9 9 = Inr 0
   \<and> to_from_reclass [41] 41 21 = Inr 4121"
proof -
  have b: "(0::int) \<le> 4" "(4::int) < BASE" "(0::int) \<le> 2" "(2::int) < BASE"
    "(0::int) \<le> 9" "(9::int) < BASE" "(0::int) \<le> 41" "(41::int) < BASE"
    "(0::int) \<le> 21" "(21::int) < BASE"
    by (simp_all add: BASE_def)
  have "to_from_reclass [4] 4 4 = Inr 1"
    using to_from_reclass_digits [of "[4]" 4 "[]" 4 4] b by simp
  moreover have "to_from_reclass [4] 4 2 = Inr 42"
    using to_from_reclass_digits [of "[4]" 4 "[]" 4 2] b by simp
  moreover have "to_from_reclass [4] 9 4 = Inr 94"
    using to_from_reclass_digits [of "[4]" 4 "[]" 9 4] b by simp
  moreover have "to_from_reclass [4] 9 9 = Inr 0"
    using to_from_reclass_digits [of "[4]" 4 "[]" 9 9] b by simp
  moreover have "to_from_reclass [41] 41 21 = Inr 4121"
    using to_from_reclass_digits [of "[41]" 41 "[]" 41 21] b by simp
  ultimately show ?thesis by blast
qed

text \<open>
  The claim C2 as stated, with \<open>targetValue * BASE + ec\<close> and \<open>sc * BASE + targetValue\<close>,
  fails for one-digit values: for the start classes \<open>[4]\<close> the pair \<open>(4, 2)\<close> does
  not get 402 and the pair \<open>(9, 4)\<close> does not get 904.
\<close>

theorem to_from_reclass_counterexample:
  "(4::int) \<in> set [4] \<and> (2::int) \<notin> set [4] \<and> to_from_reclass [4] 4 2 \<noteq> Inr (4 * BASE + 2)
   \<and> (9::int) \<notin> set [4] \<and> to_from_reclass [4] 9 4 \<noteq> Inr (9 * BASE + 4)"
  by (simp add: to_from_reclass_eq py_str_def py_int_def parse_digits_def digits_val_def
      str_nat.simps digit_char_def is_digit_def digit_val_def BASE_def)

text \<open>
  C10.  With several start classes, only the first one, \<open>t\<close>, is used: a pair leaving
  the start classes has its start class rewritten to \<open>t\<close> and its new class built from
  \<open>t\<close> and \<open>ec\<close>, so it gets what the pair \<open>(t, ec)\<close> gets, whichever start class
  \<open>sc\<close> was; a pair entering them has its end class rewritten to \<open>t\<close> and its new
  class built from \<open>sc\<close> and \<open>t\<close>; a pair with both values among the start classes
  gets the new class 1, equal values or not.
\<close>

theorem to_from_first_value:
  assumes "start_cls = t # ts"
  shows "(sc \<in> set start_cls \<and> ec \<notin> set start_cls \<longrightarrow>
            to_from_pair start_cls sc ec
              = (case py_int (py_str t @ py_str ec) of
                   Inl e \<Rightarrow> Inl e | Inr v \<Rightarrow> Inr (t, ec, v))
            \<and> to_from_pair start_cls sc ec = to_from_pair start_cls t ec)
       \<and> (sc \<notin> set start_cls \<and> ec \<in> set start_cls \<longrightarrow>
            to_from_pair start_cls sc ec
              = (case py_int (py_str sc @ py_str t) of
                   Inl e \<Rightarrow> Inl e | Inr v \<Rightarrow> Inr (sc, t, v))
            \<and> to_from_pair start_cls sc ec = to_from_pair start_cls sc t)
       \<and> (sc \<in> set start_cls \<and> ec \<in> set start_cls \<longrightarrow>
            to_from_reclass start_cls sc ec = Inr 1)"
  unfolding assms by (simp add: to_from_pair_eq to_from_reclass_eq)

theorem to_from_first_value_witness:
  "to_from_pair [41, 42] 42 21 = Inr (41, 21, 4121)
   \<and> to_from_pair [41, 42] 42 21 = to_from_pair [41, 42] 41 21
   \<and> to_from_pair [41, 42] 21 42 = Inr (21, 41, 2141)
   \<and> to_from_pair [41, 42] 21 42 = to_from_pair [41, 42] 21 41
   \<and> to_from_reclass [41, 42] 41 42 = Inr 1"
proof -
  have c: "py_int (py_str 41 @ py_str 21) = Inr 4121" "py_int (py_str 21 @ py_str 41) = Inr 2141"
    by (simp_all add: concat_code)
  have h1: "(42::int) \<in> set [41, 42] \<and> (21::int) \<notin> set [41, 42]" by simp
  have h2: "(21::int) \<notin> set [41, 42] \<and> (42::int) \<in> set [41, 42]" by simp
  have h3: "(41::int) \<in> set [41, 42] \<and> (42::int) \<in> set [41, 42]" by simp
  from to_from_first_value [of "[41, 42]" 41 "[42]" 42 21] h1
  have a1: "to_from_pair [41, 42] 42 21
      = (case py_int (py_str 41 @ py_str 21) of Inl e \<Rightarrow> Inl e | Inr v \<Rightarrow> Inr (41, 21, v))"
    and b1: "to_from_pair [41, 42] 42 21 = to_from_pair [41, 42] 41 21"
    by blast+
  from to_from_first_value [of "[41, 42]" 41 "[42]" 21 42] h2
  have a2: "to_from_pair [41, 42] 21 42
      = (case py_int (py_str 21 @ py_str 41) of Inl e \<Rightarrow> Inl e | Inr v \<Rightarrow> Inr (21, 41, v))"
    and b2: "to_from_pair [41, 42] 21 42 = to_from_pair [41, 42] 21 41"
    by blast+
  have 1: "to_from_pair [41, 42] 42 21 = Inr (41, 21, 4121)" by (simp add: a1 c)
  have 2: "to_from_pair [41, 42] 21 42 = Inr (21, 41, 2141)" by (simp add: a2 c)
  from to_from_first_value [of "[41, 42]" 41 "[42]" 41 42] h3
  have 3: "to_from_reclass [41, 42] 41 42 = Inr 1" by simp
  from 1 2 3 b1 b2 show ?thesis by blast
qed

subsection \<open>Areas and percentages\<close>

lemma change_rast_stats_unfold:
  "change_rast_stats rows = percent_of_view (\<lambda>r. True) (calc_area_ha rows)"
  by (simp add: change_rast_stats_def change_rast_area_def)

lemma change_summary_stats_unfold:
  "change_summary_stats rows = percent_of_view (\<lambda>r. Value r \<in> {1, 2, 3}) (calc_area_ha rows)"
  by (simp add: change_summary_stats_def change_summary_area_def)

lemma change_to_from_stats_unfold:
  "change_to_from_stats rows = percent_of_view (\<lambda>r. True) (calc_area_ha rows)"
  by (simp add: change_to_from_stats_def change_to_from_area_def)

lemma calc_perc_no_match:
  "\<forall>r \<in> set rows. \<not> wh r \<Longrightarrow> calc_perc wh t rows = Inr rows"
  by (induction rows) simp_all

lemma calc_perc_zero:
  "\<exists>r \<in> set rows. wh r \<Longrightarrow> calc_perc wh 0 rows = Inl ZeroDivisionError"
proof (induction rows)
  case Nil
  then show ?case by simp
next
  case (Cons x rows)
  show ?case
  proof (cases "wh x")
    case True
    then show ?thesis by (simp add: perc_expr_def)
  next
    case False
    with Cons.prems have "\<exists>r \<in> set rows. wh r" by auto
    with Cons.IH have "calc_perc wh 0 rows = Inl ZeroDivisionError" by simp
    with False show ?thesis by simp
  qed
qed

lemma calc_perc_nonzero:
  "t \<noteq> 0 \<Longrightarrow> calc_perc wh t rows
     = Inr (map (\<lambda>r. if wh r then r \<lparr> perc := Some ((of_int (Count r) / of_int t) * 100) \<rparr> else r) rows)"
  by (induction rows) (simp_all add: perc_expr_def)

lemma calc_perc_area:
  "calc_perc wh t rows = Inr out \<Longrightarrow> map area_ha out = map area_ha rows \<and> map Count out = map Count rows"
proof (cases "t = 0")
  case False
  assume "calc_perc wh t rows = Inr out"
  with False have "out = map (\<lambda>r. if wh r then r \<lparr> perc := Some ((of_int (Count r) / of_int t) * 100) \<rparr> else r) rows"
    by (simp add: calc_perc_nonzero)
  then show ?thesis by simp
next
  case True
  assume a: "calc_perc wh t rows = Inr out"
  have "\<forall>r \<in> set rows. \<not> wh r"
  proof (rule ccontr)
    assume "\<not> (\<forall>r \<in> set rows. \<not> wh r)"
    then have "\<exists>r \<in> set rows. wh r" by blast
    from calc_perc_zero [OF this] a True show False by simp
  qed
  with a have "out = rows" by (simp add: calc_perc_no_match)
  then show ?thesis by simp
qed

lemma map_area_ha_calc: "map area_ha (calc_area_ha rows) = map (\<lambda>r. of_int (Count r) * 900 / 10000) rows"
  by (simp add: calc_area_ha_def area_ha_expr_def comp_def)

lemma total_cells_all: "total_cells (\<lambda>r. True) (calc_area_ha rows) = sum_list (map Count rows)"
  by (simp add: total_cells_def calc_area_ha_def comp_def)

text \<open>
  C6 (as amended).  For every attribute table whose counts do not sum to zero, change_rast
  gives each row the area \<open>Count * 900 / 10000\<close>, the cell area being the constant 900
  of the expression, and the percentage \<open>Count / total * 100\<close> with \<open>total\<close> the sum
  of all counts.  For the rows \<open>(1, 10)\<close>, \<open>(2, 30)\<close>, \<open>(3, 60)\<close> the row of
  value 2 has the area \<open>27 / 10\<close> and the percentage 30.
\<close>

theorem change_rast_stats_rows:
  assumes "sum_list (map Count rows) \<noteq> 0"
  shows "change_rast_stats rows
     = Inr (map (\<lambda>r. \<lparr> Value = Value r, Count = Count r,
                         area_ha = (of_int (Count r) * 900) / 10000,
                         perc = Some ((of_int (Count r) / of_int (sum_list (map Count rows))) * 100) \<rparr>)
              rows)"
proof -
  let ?t = "sum_list (map Count rows)"
  have "change_rast_stats rows = calc_perc (\<lambda>r. True) ?t (calc_area_ha rows)"
    by (simp only: change_rast_stats_unfold percent_of_view_def total_cells_all)
  also have "\<dots> = Inr (map (\<lambda>r. r \<lparr> perc := Some ((of_int (Count r) / of_int ?t) * 100) \<rparr>)
                          (calc_area_ha rows))"
    using assms by (simp add: calc_perc_nonzero)
  finally show ?thesis
    by (simp add: calc_area_ha_def area_ha_expr_def comp_def)
qed

theorem change_rast_stats_rows_witness:
  "sum_list (map Count [\<lparr> Value = 1, Count = 10 \<rparr>, \<lparr> Value = 2, Count = 30 \<rparr>,
                         \<lparr> Value = 3, Count = 60 \<rparr>]) \<noteq> 0
   \<and> change_rast_stats [\<lparr> Value = 1, Count = 10 \<rparr>, \<lparr> Value = 2, Count = 30 \<rparr>,
                         \<lparr> Value = 3, Count = 60 \<rparr>]
     = Inr [\<lparr> Value = 1, Count = 10, area_ha = 9 / 10, perc = Some 10 \<rparr>,
            \<lparr> Value = 2, Count = 30, area_ha = 27 / 10, perc = Some 30 \<rparr>,
            \<lparr> Value = 3, Count = 60, area_ha = 54 / 10, perc = Some 60 \<rparr>]"
proof -
  let ?rows = "[\<lparr> Value = 1, Count = 10 \<rparr>, \<lparr> Value = 2, Count = 30 \<rparr>, \<lparr> Value = 3, Count = 60 \<rparr>]"
  have h: "sum_list (map Count ?rows) \<noteq> 0" by simp
  from change_rast_stats_rows [OF h] h show ?thesis by simp
qed

text \<open>
  The claim C6 as stated, for every cell area, fails: for a cell area of 100 square
  metres the row \<open>(2, 30)\<close> still gets the area \<open>27 / 10\<close>, not
  \<open>30 * 100 / 10000\<close>.
\<close>

theorem change_rast_stats_counterexample:
  "change_rast_stats [\<lparr> Value = 2, Count = 30 \<rparr>]
     = Inr [\<lparr> Value = 2, Count = 30, area_ha = 27 / 10, perc = Some 100 \<rparr>]
   \<and> (27 / 10 :: rat) \<noteq> (30 * 100) / 10000"
  by (simp add: change_rast_stats_unfold percent_of_view_def total_cells_def calc_area_ha_def
      area_ha_expr_def perc_expr_def)

lemma total_cells_view:
  "total_cells (\<lambda>r. Value r \<in> {1, 2, 3}) (calc_area_ha rows)
     = sum_list (map Count (filter (\<lambda>r. Value r \<in> {1, 2, 3}) rows))"
proof -
  have "filter (\<lambda>r. Value r \<in> {1, 2, 3}) (calc_area_ha rows)
      = calc_area_ha (filter (\<lambda>r. Value r \<in> {1, 2, 3}) rows)"
    by (simp add: calc_area_ha_def filter_map comp_def)
  then show ?thesis
    by (simp add: total_cells_def calc_area_ha_def comp_def)
qed

lemma change_summary_stats_eq:
  "change_summary_stats rows =
     (if (\<exists>r \<in> set rows. Value r \<in> {1, 2, 3})
         \<and> sum_list (map Count (filter (\<lambda>r. Value r \<in> {1, 2, 3}) rows)) = 0
      then Inl ZeroDivisionError
      else Inr (map (\<lambda>r. \<lparr> Value = Value r, Count = Count r,
                            area_ha = (of_int (Count r) * 900) / 10000,
                            perc = (if Value r \<in> {1, 2, 3}
                                    then Some ((of_int (Count r)
                                           / of_int (sum_list (map Count
                                               (filter (\<lambda>r. Value r \<in> {1, 2, 3}) rows)))) * 100)
                                    else None) \<rparr>) rows))"
proof -
  let ?wh = "\<lambda>r :: stat_row. Value r \<in> {1, 2, 3}"
  let ?t = "sum_list (map Count (filter (\<lambda>r. Value r \<in> {1, 2, 3}) rows))"
  have eq: "change_summary_stats rows = calc_perc ?wh ?t (calc_area_ha rows)"
    by (simp only: change_summary_stats_unfold percent_of_view_def total_cells_view)
  show ?thesis
  proof (cases "?t = 0")
    case False
    have "calc_perc ?wh ?t (calc_area_ha rows)
        = Inr (map (\<lambda>r. if ?wh r then r \<lparr> perc := Some ((of_int (Count r) / of_int ?t) * 100) \<rparr>
                           else r) (calc_area_ha rows))"
      using False by (rule calc_perc_nonzero)
    with False eq show ?thesis
      by (simp add: calc_area_ha_def area_ha_expr_def comp_def if_distrib cong: if_cong)
  next
    case True
    show ?thesis
    proof (cases "\<exists>r \<in> set rows. Value r \<in> {1, 2, 3}")
      case ex: True
      then have "\<exists>r \<in> set (calc_area_ha rows). ?wh r"
        by (auto simp: calc_area_ha_def)
      then have "calc_perc ?wh 0 (calc_area_ha rows) = Inl ZeroDivisionError"
        by (rule calc_perc_zero)
      with True ex eq show ?thesis by simp
    next
      case no: False
      then have "\<forall>r \<in> set (calc_area_ha rows). \<not> ?wh r"
        by (auto simp: calc_area_ha_def)
      then have "calc_perc ?wh ?t (calc_area_ha rows) = Inr (calc_area_ha rows)"
        by (rule calc_perc_no_match)
      moreover have "calc_area_ha rows
          = map (\<lambda>r. \<lparr> Value = Value r, Count = Count r,
                         area_ha = (of_int (Count r) * 900) / 10000,
                         perc = (if Value r \<in> {1, 2, 3}
                                 then Some ((of_int (Count r) / of_int ?t) * 100)
                                 else None) \<rparr>) rows"
        using no by (simp add: calc_area_ha_def area_ha_expr_def)
      ultimately show ?thesis using no eq by simp
    qed
  qed
qed




lemma stats_all_success:
  assumes "sum_list (map Count rows) \<noteq> 0"
  shows "percent_of_view (\<lambda>r. True) (calc_area_ha rows)
     = Inr (map (\<lambda>r. \<lparr> Value = Value r, Count = Count r,
                         area_ha = (of_int (Count r) * 900) / 10000,
                         perc = Some ((of_int (Count r) / of_int (sum_list (map Count rows))) * 100) \<rparr>)
              rows)"
proof -
  let ?t = "sum_list (map Count rows)"
  have "percent_of_view (\<lambda>r. True) (calc_area_ha rows) = calc_perc (\<lambda>r. True) ?t (calc_area_ha rows)"
    by (simp only: percent_of_view_def total_cells_all)
  also have "\<dots> = Inr (map (\<lambda>r. r \<lparr> perc := Some ((of_int (Count r) / of_int ?t) * 100) \<rparr>)
                          (calc_area_ha rows))"
    using assms by (simp add: calc_perc_nonzero)
  finally show ?thesis
    by (simp add: calc_area_ha_def area_ha_expr_def comp_def)
qed

text \<open>
  C9.  The area of a row is \<open>Count * 900 / 10000\<close> in every stats step: in the table
  that the area step of change_rast, of change_summary and of change_to_from writes,
  whatever the rows; in the table each of the three functions returns, which it does
  whenever the total of its percentage is not zero; and the hectares of tabLcTypes,
  \<open>Count * 0.09\<close>, are the same number.  The cell area of 900 square metres is a
  constant of every expression, and none of the functions takes a cell area.
\<close>

theorem fixed_cell_area:
  "map area_ha (change_rast_area rows) = map (\<lambda>r. (of_int (Count r) * 900) / 10000) rows
   \<and> map area_ha (change_summary_area rows) = map (\<lambda>r. (of_int (Count r) * 900) / 10000) rows
   \<and> map area_ha (change_to_from_area rows) = map (\<lambda>r. (of_int (Count r) * 900) / 10000) rows
   \<and> (change_rast_stats rows = Inr out \<longrightarrow>
      map area_ha out = map (\<lambda>r. (of_int (Count r) * 900) / 10000) rows)
   \<and> (change_summary_stats rows = Inr out \<longrightarrow>
      map area_ha out = map (\<lambda>r. (of_int (Count r) * 900) / 10000) rows)
   \<and> (change_to_from_stats rows = Inr out \<longrightarrow>
      map area_ha out = map (\<lambda>r. (of_int (Count r) * 900) / 10000) rows)
   \<and> (sum_list (map Count rows) \<noteq> 0 \<longrightarrow>
      (\<exists>out1. change_rast_stats rows = Inr out1
          \<and> map area_ha out1 = map (\<lambda>r. (of_int (Count r) * 900) / 10000) rows)
      \<and> (\<exists>out3. change_to_from_stats rows = Inr out3
          \<and> map area_ha out3 = map (\<lambda>r. (of_int (Count r) * 900) / 10000) rows))
   \<and> (sum_list (map Count (filter (\<lambda>r. Value r \<in> {1, 2, 3}) rows)) \<noteq> 0 \<longrightarrow>
      (\<exists>out2. change_summary_stats rows = Inr out2
          \<and> map area_ha out2 = map (\<lambda>r. (of_int (Count r) * 900) / 10000) rows))
   \<and> tabLcTypes_area_ha count = (of_int count * 900) / 10000
   \<and> area_ha_expr count = of_int count * 0.09"
proof -
  have a: "map area_ha (change_rast_area rows) = map (\<lambda>r. (of_int (Count r) * 900) / 10000) rows"
    "map area_ha (change_summary_area rows) = map (\<lambda>r. (of_int (Count r) * 900) / 10000) rows"
    "map area_ha (change_to_from_area rows) = map (\<lambda>r. (of_int (Count r) * 900) / 10000) rows"
    by (simp_all add: change_rast_area_def change_summary_area_def change_to_from_area_def
        map_area_ha_calc)
  have b1: "change_rast_stats rows = Inr out \<longrightarrow>
      map area_ha out = map (\<lambda>r. (of_int (Count r) * 900) / 10000) rows"
    by (auto simp: change_rast_stats_unfold percent_of_view_def map_area_ha_calc
        dest!: calc_perc_area)
  have b2: "change_summary_stats rows = Inr out \<longrightarrow>
      map area_ha out = map (\<lambda>r. (of_int (Count r) * 900) / 10000) rows"
    by (auto simp: change_summary_stats_unfold percent_of_view_def map_area_ha_calc
        dest!: calc_perc_area)
  have b3: "change_to_from_stats rows = Inr out \<longrightarrow>
      map area_ha out = map (\<lambda>r. (of_int (Count r) * 900) / 10000) rows"
    by (auto simp: change_to_from_stats_unfold percent_of_view_def map_area_ha_calc
        dest!: calc_perc_area)
  have c13: "sum_list (map Count rows) \<noteq> 0 \<longrightarrow>
      (\<exists>out1. change_rast_stats rows = Inr out1
          \<and> map area_ha out1 = map (\<lambda>r. (of_int (Count r) * 900) / 10000) rows)
      \<and> (\<exists>out3. change_to_from_stats rows = Inr out3
          \<and> map area_ha out3 = map (\<lambda>r. (of_int (Count r) * 900) / 10000) rows)"
    by (simp add: change_rast_stats_unfold change_to_from_stats_unfold stats_all_success comp_def)
  have c2: "sum_list (map Count (filter (\<lambda>r. Value r \<in> {1, 2, 3}) rows)) \<noteq> 0 \<longrightarrow>
      (\<exists>out2. change_summary_stats rows = Inr out2
          \<and> map area_ha out2 = map (\<lambda>r. (of_int (Count r) * 900) / 10000) rows)"
    by (simp add: change_summary_stats_eq comp_def)
  have d: "tabLcTypes_area_ha count = (of_int count * 900) / 10000"
    "area_ha_expr count = of_int count * 0.09"
    by (simp_all add: tabLcTypes_area_ha_def area_ha_expr_def)
  from a b1 b2 b3 c13 c2 d show ?thesis by blast
qed

theorem fixed_cell_area_witness:
  "change_rast_stats [\<lparr> Value = 1, Count = 10 \<rparr>, \<lparr> Value = 2, Count = 30 \<rparr>]
     = Inr [\<lparr> Value = 1, Count = 10, area_ha = 9 / 10, perc = Some 25 \<rparr>,
            \<lparr> Value = 2, Count = 30, area_ha = 27 / 10, perc = Some 75 \<rparr>]
   \<and> change_summary_stats [\<lparr> Value = 1, Count = 10 \<rparr>, \<lparr> Value = 2, Count = 30 \<rparr>]
     = Inr [\<lparr> Value = 1, Count = 10, area_ha = 9 / 10, perc = Some 25 \<rparr>,
            \<lparr> Value = 2, Count = 30, area_ha = 27 / 10, perc = Some 75 \<rparr>]
   \<and> change_to_from_stats [\<lparr> Value = 1, Count = 10 \<rparr>, \<lparr> Value = 2, Count = 30 \<rparr>]
     = Inr [\<lparr> Value = 1, Count = 10, area_ha = 9 / 10, perc = Some 25 \<rparr>,
            \<lparr> Value = 2, Count = 30, area_ha = 27 / 10, perc = Some 75 \<rparr>]
   \<and> map area_ha [\<lparr> Value = 1, Count = 10, area_ha = 9 / 10, perc = Some 25 \<rparr>,
                   \<lparr> Value = 2, Count = 30, area_ha = 27 / 10, perc = Some 75 \<rparr>]
     = map (\<lambda>r. (of_int (Count r) * 900) / 10000)
         [\<lparr> Value = 1, Count = 10 \<rparr>, \<lparr> Value = 2, Count = 30 \<rparr>]
   \<and> map area_ha (change_rast_area [\<lparr> Value = 1, Count = 10 \<rparr>, \<lparr> Value = 2, Count = 30 \<rparr>])
     = [9 / 10, 27 / 10]
   \<and> map area_ha (change_summary_area [\<lparr> Value = 1, Count = 10 \<rparr>, \<lparr> Value = 2, Count = 30 \<rparr>])
     = [9 / 10, 27 / 10]
   \<and> map area_ha (change_to_from_area [\<lparr> Value = 1, Count = 10 \<rparr>, \<lparr> Value = 2, Count = 30 \<rparr>])
     = [9 / 10, 27 / 10]
   \<and> (\<exists>out1. change_rast_stats [\<lparr> Value = 1, Count = 10 \<rparr>, \<lparr> Value = 2, Count = 30 \<rparr>] = Inr out1
          \<and> map area_ha out1 = [9 / 10, 27 / 10])
   \<and> (\<exists>out2. change_summary_stats [\<lparr> Value = 1, Count = 10 \<rparr>, \<lparr> Value = 2, Count = 30 \<rparr>] = Inr out2
          \<and> map area_ha out2 = [9 / 10, 27 / 10])
   \<and> (\<exists>out3. change_to_from_stats [\<lparr> Value = 1, Count = 10 \<rparr>, \<lparr> Value = 2, Count = 30 \<rparr>] = Inr out3
          \<and> map area_ha out3 = [9 / 10, 27 / 10])
   \<and> tabLcTypes_area_ha 30 = 27 / 10"
proof -
  let ?rows = "[\<lparr> Value = 1, Count = 10 \<rparr>, \<lparr> Value = 2, Count = 30 \<rparr>]"
  let ?out = "[\<lparr> Value = 1, Count = 10, area_ha = 9 / 10, perc = Some 25 \<rparr>,
               \<lparr> Value = 2, Count = 30, area_ha = 27 / 10, perc = Some 75 \<rparr>]"
  let ?f = "\<lambda>r :: freq_row. (of_int (Count r) * 900) / (10000 :: rat)"
  have m: "map ?f ?rows = [9 / 10, 27 / 10]" by simp
  have h1: "change_rast_stats ?rows = Inr ?out"
    by (simp add: change_rast_stats_unfold percent_of_view_def total_cells_def calc_area_ha_def
        area_ha_expr_def perc_expr_def)
  have h2: "change_summary_stats ?rows = Inr ?out"
    by (simp add: change_summary_stats_unfold percent_of_view_def total_cells_def calc_area_ha_def
        area_ha_expr_def perc_expr_def)
  have h3: "change_to_from_stats ?rows = Inr ?out"
    by (simp add: change_to_from_stats_unfold percent_of_view_def total_cells_def calc_area_ha_def
        area_ha_expr_def perc_expr_def)
  have s1: "sum_list (map Count ?rows) \<noteq> 0" by simp
  have s2: "sum_list (map Count (filter (\<lambda>r. Value r \<in> {1, 2, 3}) ?rows)) \<noteq> 0" by simp
  note t = fixed_cell_area [of ?rows ?out 30]
  from t have a: "map area_ha (change_rast_area ?rows) = map ?f ?rows"
    "map area_ha (change_summary_area ?rows) = map ?f ?rows"
    "map area_ha (change_to_from_area ?rows) = map ?f ?rows"
    by blast+
  from t h1 have b: "map area_ha ?out = map ?f ?rows" by blast
  from t s1 have c1: "\<exists>out1. change_rast_stats ?rows = Inr out1 \<and> map area_ha out1 = map ?f ?rows"
    and c3: "\<exists>out3. change_to_from_stats ?rows = Inr out3 \<and> map area_ha out3 = map ?f ?rows"
    by blast+
  from t s2 have c2: "\<exists>out2. change_summary_stats ?rows = Inr out2 \<and> map area_ha out2 = map ?f ?rows"
    by blast
  from t have d: "tabLcTypes_area_ha 30 = (of_int 30 * 900) / 10000" by blast
  from d have d': "tabLcTypes_area_ha 30 = 27 / 10" by simp
  from h1 h2 h3 b a [unfolded m] c1 [unfolded m] c2 [unfolded m] c3 [unfolded m] d'
  show ?thesis by blast
qed

end
